theory Spec2Isabelle
  imports Complex_Main "HOL-Library.AList"
begin

section \<open>Values, exceptions and results\<close>

text \<open>
  The service is a set of FastAPI route handlers. Its collaborators (the remote
  authentication service, the image host, the document store, the clock and the random
  source) are parameters of the handlers: functions that give the outcome of each call.
  A handler returns its result together with the list of store calls it issued, in order.

  A Python string is a \<open>string\<close>: text outside ASCII is held as its UTF-8 bytes. The
  methods \<open>str.strip\<close> and \<open>str.title\<close>, which depend on the Unicode character tables,
  are parameters of the endpoint that calls them; what they do on ASCII text is defined
  below and is used only for ASCII text.
\<close>

datatype pyval = PStr string | PFloat real | PNone

type_synonym dict = "(string \<times> pyval) list"

text \<open>A decoded JSON value, as \<open>response.json()\<close> returns it: \<open>None\<close>, a bool, a number,
  a string, a list or a dict (an association list; of a repeated key the first entry
  counts).\<close>

datatype json_value =
    JNull
  | JBool bool
  | JNum real
  | JStr string
  | JArr "json_value list"
  | JObj "(string \<times> json_value) list"

text \<open>The \<open>detail\<close> of an HTTPException: a plain string, a dict with a message and a list
  of errors, or an f-string ending in \<open>str(e)\<close> for a caught exception \<open>e\<close>.\<close>

datatype detail =
    Text string
  | Report string "string list"
  | Formatted string exn
and exn =
    HTTPException int detail
  | RequestError
  | KeyError string
  | TypeError
  | ValidationError "(string list \<times> string) list"
  | OtherException string

definition a_acute :: string where
  "a_acute = [CHR 0xC3, CHR 0xA1]"

definition o_acute :: string where
  "o_acute = [CHR 0xC3, CHR 0xB3]"

definition quoted :: "string \<Rightarrow> string" where
  "quoted s = [CHR 0x27] @ s @ [CHR 0x27]"

fun join :: "string \<Rightarrow> string list \<Rightarrow> string" where
  "join sep [] = []"
| "join sep [x] = x"
| "join sep (x # y # ys) = x @ sep @ join sep (y # ys)"

section \<open>Authentication (app/services/auth\_service.py)\<close>

text \<open>Modelled from the spec: the schemas \<open>UserType\<close> and \<open>AuthenticatedUser\<close> of
  app/schemas/auth.py are not among the sources. The spec gives the user an identifier,
  an email and a user type that is \<open>owner\<close> or \<open>clinic\<close>. The identifier and the email
  are string fields, as the annotations of the functions that pass the identifier on say
  (\<open>-> str\<close>); the constructor validates each field and raises a ValidationError that
  lists the fields refused.\<close>

datatype UserType = OWNER | CLINIC

fun UserType_value :: "UserType \<Rightarrow> string" where
  "UserType_value OWNER = ''owner''"
| "UserType_value CLINIC = ''clinic''"

record AuthenticatedUser =
  user_id :: string
  email :: string
  userType :: UserType

text \<open>Validation of a string field: a string is taken as it is, a value of any other type
  is refused.\<close>

definition str_field :: "json_value \<Rightarrow> string option" where
  "str_field v = (case v of JStr s \<Rightarrow> Some s | _ \<Rightarrow> None)"

text \<open>Validation of the \<open>userType\<close> field: the string is coerced to the member of the
  enumeration that has it as value.\<close>

definition UserType_of :: "string \<Rightarrow> UserType option" where
  "UserType_of s =
     (if s = ''owner'' then Some OWNER else if s = ''clinic'' then Some CLINIC else None)"

definition field_errors :: "json_value \<Rightarrow> json_value \<Rightarrow> string \<Rightarrow> (string list \<times> string) list" where
  "field_errors i e t =
     (if str_field i = None then [([''id''], ''Input should be a valid string'')] else [])
     @ (if str_field e = None then [([''email''], ''Input should be a valid string'')] else [])
     @ (if UserType_of t = None then
          [([''userType''], ''Input should be '' @ quoted ''owner'' @ '' or '' @ quoted ''clinic'')]
        else [])"

definition AuthenticatedUser_init :: "json_value \<Rightarrow> json_value \<Rightarrow> string \<Rightarrow> exn + AuthenticatedUser" where
  "AuthenticatedUser_init i e t =
     (case str_field i of
        None \<Rightarrow> Inl (ValidationError (field_errors i e t))
      | Some i' \<Rightarrow>
          (case str_field e of
             None \<Rightarrow> Inl (ValidationError (field_errors i e t))
           | Some e' \<Rightarrow>
               (case UserType_of t of
                  None \<Rightarrow> Inl (ValidationError (field_errors i e t))
                | Some t' \<Rightarrow> Inr \<lparr>user_id = i', email = e', userType = t'\<rparr>)))"

text \<open>The reply of the remote service: a status code and the outcome of \<open>response.json()\<close>,
  which is the decoded body, whatever JSON value it is, or the exception the decoder
  raised. The code does not check the type of the decoded body.\<close>

record response =
  status_code :: int
  json :: "exn + json_value"

text \<open>\<open>client_get token\<close> is the outcome of the GET on the profile endpoint with the header
  \<open>Authorization: Bearer token\<close>: a response, or the exception raised by the client
  (\<open>RequestError\<close> for every subclass of httpx.RequestError).\<close>

type_synonym client = "string \<Rightarrow> exn + response"

text \<open>The body of the \<open>try\<close> block of \<open>get_user_profile_from_token\<close>.\<close>

definition profile_try_body :: "client \<Rightarrow> string \<Rightarrow> exn + json_value" where
  "profile_try_body client_get token =
     (case client_get token of
        Inl e \<Rightarrow> Inl e
      | Inr r \<Rightarrow>
          if status_code r = 200 then json r
          else Inl (HTTPException 401 (Text (''Token inv'' @ a_acute @ ''lido o expirado''))))"

text \<open>The two handlers, in the order of the source: \<open>except httpx.RequestError\<close>, then
  \<open>except Exception\<close>, which catches every other exception raised in the body.\<close>

definition get_user_profile_from_token :: "client \<Rightarrow> string \<Rightarrow> exn + json_value" where
  "get_user_profile_from_token client_get token =
     (case profile_try_body client_get token of
        Inr user_data \<Rightarrow> Inr user_data
      | Inl RequestError \<Rightarrow>
          Inl (HTTPException 503
                 (Text (''Servicio de autenticaci'' @ o_acute @ ''n no disponible'')))
      | Inl _ \<Rightarrow>
          Inl (HTTPException 500
                 (Text (''Error interno del servidor de autenticaci'' @ o_acute @ ''n''))))"

definition userType_invalido :: exn where
  "userType_invalido =
     HTTPException 400
       (Text (''userType inv'' @ a_acute @ ''lido. Debe ser '' @ quoted ''owner''
              @ '' o '' @ quoted ''clinic''))"

text \<open>\<open>user_profile["id"]\<close>: on a dict, the value of the key, or KeyError when the key is
  missing; on a list or a string, TypeError (their indices are integers); on \<open>None\<close>, a
  bool or a number, TypeError (they are not subscriptable).\<close>

definition subscript :: "json_value \<Rightarrow> string \<Rightarrow> exn + json_value" where
  "subscript user_profile k =
     (case user_profile of
        JObj d \<Rightarrow> (case map_of d k of None \<Rightarrow> Inl (KeyError k) | Some v \<Rightarrow> Inr v)
      | _ \<Rightarrow> Inl TypeError)"

text \<open>\<open>d.get(k, default)\<close> on a dict.\<close>

definition dict_get :: "(string \<times> json_value) list \<Rightarrow> string \<Rightarrow> json_value \<Rightarrow> json_value" where
  "dict_get d k dflt = (case map_of d k of None \<Rightarrow> dflt | Some v \<Rightarrow> v)"

text \<open>The arguments of the constructor are evaluated in order: \<open>user_profile["id"]\<close> first,
  so \<open>user_profile.get\<close> is reached only on a dict.\<close>

definition get_current_user :: "client \<Rightarrow> string \<Rightarrow> string option \<Rightarrow> exn + AuthenticatedUser" where
  "get_current_user client_get credentials user_type =
     (let user_type = (case user_type of None \<Rightarrow> ''clinic'' | Some s \<Rightarrow> s) in
      if user_type \<notin> set [''owner'', ''clinic''] then Inl userType_invalido
      else
        case get_user_profile_from_token client_get credentials of
          Inl e \<Rightarrow> Inl e
        | Inr user_profile \<Rightarrow>
            (case subscript user_profile ''id'' of
               Inl e \<Rightarrow> Inl e
             | Inr i \<Rightarrow>
                 (case user_profile of
                    JObj d \<Rightarrow>
                      AuthenticatedUser_init i
                        (dict_get d ''email'' (JStr ''user@example.com'')) user_type
                  | _ \<Rightarrow> Inl TypeError)))"

definition get_user_id_from_token :: "client \<Rightarrow> string \<Rightarrow> string \<Rightarrow> exn + json_value" where
  "get_user_id_from_token client_get token user_type =
     (if user_type \<notin> set [''owner'', ''clinic''] then Inl userType_invalido
      else
        case get_user_profile_from_token client_get token of
          Inl e \<Rightarrow> Inl e
        | Inr user_profile \<Rightarrow> subscript user_profile ''id'')"

text \<open>The value of \<open>id\<close> is returned as it is, whatever its type.\<close>

definition get_current_user_id :: "client \<Rightarrow> string \<Rightarrow> string option \<Rightarrow> exn + json_value" where
  "get_current_user_id client_get credentials user_type =
     (let user_type = (case user_type of None \<Rightarrow> ''clinic'' | Some s \<Rightarrow> s) in
      if user_type \<notin> set [''owner'', ''clinic''] then Inl userType_invalido
      else
        case get_user_profile_from_token client_get credentials of
          Inl e \<Rightarrow> Inl e
        | Inr user_profile \<Rightarrow> subscript user_profile ''id'')"

definition verify_user_type :: "AuthenticatedUser \<Rightarrow> UserType list \<Rightarrow> exn + bool" where
  "verify_user_type user allowed_types =
     (if userType user \<notin> set allowed_types then
        Inl (HTTPException 403
               (Text (''Acceso denegado. Se requiere uno de los siguientes tipos: ''
                      @ join '', '' (map UserType_value allowed_types))))
      else Inr True)"

section \<open>Dependencies (app/api/dependencies.py)\<close>

definition get_current_user_owner :: "AuthenticatedUser \<Rightarrow> exn + AuthenticatedUser" where
  "get_current_user_owner current_user =
     (case verify_user_type current_user [OWNER] of
        Inl e \<Rightarrow> Inl e
      | Inr _ \<Rightarrow> Inr current_user)"

definition get_current_user_clinic :: "AuthenticatedUser \<Rightarrow> exn + AuthenticatedUser" where
  "get_current_user_clinic current_user =
     (case verify_user_type current_user [CLINIC] of
        Inl e \<Rightarrow> Inl e
      | Inr _ \<Rightarrow> Inr current_user)"

definition get_current_user_id_clinic :: "json_value \<Rightarrow> exn + json_value" where
  "get_current_user_id_clinic current_user_id = Inr current_user_id"

definition get_current_user_id_owner :: "json_value \<Rightarrow> exn + json_value" where
  "get_current_user_id_owner current_user_id = Inr current_user_id"

section \<open>The document store (app/models/solicitud\_mongo.py)\<close>

text \<open>Modelled from the spec: the accessor class \<open>SolicitudMongoModel\<close> is not among the
  sources. The spec treats the document store as an external collaborator queried by
  owner id and equality filters, so each accessor is a function giving what the store
  answers, and every call is recorded. The read endpoints pass the string
  \<open>current_user.id\<close> as owner; the create endpoint passes the value that
  \<open>get_current_user_id\<close> returned.\<close>

record SolicitudMongoModel =
  get_solicitudes_by_owner :: "string \<Rightarrow> dict list"
  filter_solicitudes_by_owner_and_status ::
    "string \<Rightarrow> string option \<Rightarrow> string option \<Rightarrow> string option \<Rightarrow> string option
       \<Rightarrow> string option \<Rightarrow> dict list"
  get_solicitud_by_id_and_owner :: "string \<Rightarrow> string \<Rightarrow> dict option"
  create_solicitud_with_owner :: "dict \<Rightarrow> json_value \<Rightarrow> dict"

datatype store_call =
    Get_by_owner string
  | Filter_by_owner_and_status string "string option" "string option" "string option"
      "string option" "string option"
  | Get_by_id_and_owner string string
  | Create_with_owner dict json_value

text \<open>The owner-id argument of a store call.\<close>

fun owner_arg :: "store_call \<Rightarrow> json_value" where
  "owner_arg (Get_by_owner owner) = JStr owner"
| "owner_arg (Filter_by_owner_and_status owner _ _ _ _ _) = JStr owner"
| "owner_arg (Get_by_id_and_owner _ owner) = JStr owner"
| "owner_arg (Create_with_owner _ owner) = owner"

type_synonym 'a outcome = "(exn + 'a) \<times> store_call list"

text \<open>Modelled from the spec: the accessor \<open>filter_solicitudes_by_owner_and_status\<close> is
  not among the sources. The spec says that the store is queried "by owner ID and
  equality filters": over the stored documents \<open>docs\<close>, the answer is the documents of
  the owner whose \<open>estado\<close> equals the filter, when one is given, and that pass the other
  four filters, whose reading is the parameter \<open>otros\<close>.\<close>

definition filtrar_por_igualdad ::
  "dict list \<Rightarrow> (string option \<Rightarrow> string option \<Rightarrow> string option \<Rightarrow> string option \<Rightarrow> dict \<Rightarrow> bool)
     \<Rightarrow> string \<Rightarrow> string option \<Rightarrow> string option \<Rightarrow> string option \<Rightarrow> string option
     \<Rightarrow> string option \<Rightarrow> dict list" where
  "filtrar_por_igualdad docs otros owner estado especie tipo_sangre urgencia localidad =
     filter (\<lambda>d. map_of d ''ownerId'' = Some (PStr owner)
                \<and> (case estado of None \<Rightarrow> True | Some e \<Rightarrow> map_of d ''estado'' = Some (PStr e))
                \<and> otros especie tipo_sangre urgencia localidad d) docs"

section \<open>Python string methods on ASCII text\<close>

definition is_ascii :: "string \<Rightarrow> bool" where
  "is_ascii s = list_all (\<lambda>c. (of_char c :: nat) < 128) s"

definition ascii_lowercase :: string where
  "ascii_lowercase = ''abcdefghijklmnopqrstuvwxyz''"

definition ascii_uppercase :: string where
  "ascii_uppercase = ''ABCDEFGHIJKLMNOPQRSTUVWXYZ''"

definition is_cased :: "char \<Rightarrow> bool" where
  "is_cased c = (c \<in> set ascii_lowercase \<or> c \<in> set ascii_uppercase)"

definition to_upper :: "char \<Rightarrow> char" where
  "to_upper c = (case map_of (zip ascii_lowercase ascii_uppercase) c of Some u \<Rightarrow> u | None \<Rightarrow> c)"

definition to_lower :: "char \<Rightarrow> char" where
  "to_lower c = (case map_of (zip ascii_uppercase ascii_lowercase) c of Some l \<Rightarrow> l | None \<Rightarrow> c)"

text \<open>\<open>str.title()\<close> on ASCII text: a character that follows a letter is lowered, any other
  character is put in upper case.\<close>

fun ascii_title_from :: "bool \<Rightarrow> string \<Rightarrow> string" where
  "ascii_title_from previous_is_cased [] = []"
| "ascii_title_from previous_is_cased (c # cs) =
     (if previous_is_cased then to_lower c else to_upper c) # ascii_title_from (is_cased c) cs"

definition ascii_title :: "string \<Rightarrow> string" where
  "ascii_title s = ascii_title_from False s"

text \<open>The white space of ASCII: tab, line feed, vertical tab, form feed, carriage return,
  the four separators 0x1C to 0x1F, and the space.\<close>

definition ascii_space :: "char \<Rightarrow> bool" where
  "ascii_space c =
     (c \<in> set [CHR 0x09, CHR 0x0A, CHR 0x0B, CHR 0x0C, CHR 0x0D,
               CHR 0x1C, CHR 0x1D, CHR 0x1E, CHR 0x1F, CHR 0x20])"

text \<open>\<open>str.strip()\<close> on ASCII text.\<close>

definition ascii_strip :: "string \<Rightarrow> string" where
  "ascii_strip s = rev (dropWhile ascii_space (rev (dropWhile ascii_space s)))"

text \<open>That a pair of functions is \<open>str.strip\<close> and \<open>str.title\<close> as far as ASCII text goes.\<close>

definition on_ascii :: "(string \<Rightarrow> string) \<Rightarrow> (string \<Rightarrow> string) \<Rightarrow> bool" where
  "on_ascii str_strip str_title =
     (\<forall>s. is_ascii s \<longrightarrow> str_strip s = ascii_strip s \<and> str_title s = ascii_title s)"

section \<open>Read endpoints (app/api/v1/endpoints/solicitudes/vet/get.py)\<close>

text \<open>\<open>ESTADOS_PERMITIDOS\<close> (app/constants/solicitudes.py) is not among the sources and is
  a parameter of the filter endpoint, as are the methods \<open>str.strip\<close> and \<open>str.title\<close>.\<close>

definition get_all_solicitudes :: "SolicitudMongoModel \<Rightarrow> AuthenticatedUser \<Rightarrow> dict list outcome" where
  "get_all_solicitudes db current_user =
     (Inr (get_solicitudes_by_owner db (user_id current_user)),
      [Get_by_owner (user_id current_user)])"

text \<open>The validation of \<open>estado\<close>: the list of error details and the value of \<open>estado\<close>
  after the \<open>if\<close>. \<open>estado and estado.strip()\<close> is true when \<open>estado\<close> is a string that is
  not empty and whose stripped form is not empty.\<close>

definition validar_estado ::
  "(string \<Rightarrow> string) \<Rightarrow> (string \<Rightarrow> string) \<Rightarrow> string list \<Rightarrow> string option
     \<Rightarrow> string list \<times> string option" where
  "validar_estado str_strip str_title ESTADOS_PERMITIDOS estado =
     (case estado of
        None \<Rightarrow> ([], None)
      | Some s \<Rightarrow>
          if s \<noteq> [] \<and> str_strip s \<noteq> [] then
            (let estado_normalizado = str_title s in
             if estado_normalizado \<notin> set ESTADOS_PERMITIDOS then
               ([''estado: Estado inv'' @ a_acute @ ''lido. Los estados v'' @ a_acute
                 @ ''lidos son: '' @ join '', '' ESTADOS_PERMITIDOS], Some s)
             else ([], Some estado_normalizado))
          else ([], None))"

definition get_solicitudes_by_status ::
  "(string \<Rightarrow> string) \<Rightarrow> (string \<Rightarrow> string) \<Rightarrow> string list \<Rightarrow> SolicitudMongoModel
     \<Rightarrow> AuthenticatedUser \<Rightarrow> string option \<Rightarrow> string option \<Rightarrow> string option \<Rightarrow> string option
     \<Rightarrow> string option \<Rightarrow> dict list outcome" where
  "get_solicitudes_by_status str_strip str_title ESTADOS_PERMITIDOS db current_user estado
       especie tipo_sangre urgencia localidad =
     (case validar_estado str_strip str_title ESTADOS_PERMITIDOS estado of
        (error_details, estado) \<Rightarrow>
          if error_details \<noteq> [] then
            (Inl (HTTPException 422
                    (Report (''Error de validaci'' @ o_acute @ ''n en los par'' @ a_acute
                             @ ''metros de filtro'') error_details)), [])
          else
            (Inr (filter_solicitudes_by_owner_and_status db (user_id current_user) estado
                    especie tipo_sangre urgencia localidad),
             [Filter_by_owner_and_status (user_id current_user) estado especie tipo_sangre
                urgencia localidad]))"

text \<open>\<open>if not solicitud\<close> is Python's truth test: \<open>None\<close> is false, and so is an empty
  dict.\<close>

definition get_solicitud_by_id :: "SolicitudMongoModel \<Rightarrow> string \<Rightarrow> AuthenticatedUser \<Rightarrow> dict outcome" where
  "get_solicitud_by_id db solicitud_id current_user =
     (let solicitud = get_solicitud_by_id_and_owner db solicitud_id (user_id current_user);
          calls = [Get_by_id_and_owner solicitud_id (user_id current_user)]
      in case solicitud of
           None \<Rightarrow> (Inl (HTTPException 404 (Text ''Solicitud no encontrada'')), calls)
         | Some d \<Rightarrow>
             if d = [] then (Inl (HTTPException 404 (Text ''Solicitud no encontrada'')), calls)
             else (Inr d, calls))"

section \<open>Routes: the dependencies resolved before each handler\<close>

text \<open>FastAPI resolves \<open>Depends(...)\<close> before the handler runs: an exception raised by a
  dependency is the outcome of the request and the handler is not called. The three read
  endpoints depend on \<open>get_current_user_clinic\<close>, the create endpoint on
  \<open>get_current_user_id_clinic\<close>.\<close>

definition depends_user_clinic ::
  "client \<Rightarrow> string \<Rightarrow> string option \<Rightarrow> (AuthenticatedUser \<Rightarrow> 'a outcome) \<Rightarrow> 'a outcome" where
  "depends_user_clinic client_get credentials user_type handler =
     (case get_current_user client_get credentials user_type of
        Inl e \<Rightarrow> (Inl e, [])
      | Inr current_user \<Rightarrow>
          (case get_current_user_clinic current_user of
             Inl e \<Rightarrow> (Inl e, [])
           | Inr current_user \<Rightarrow> handler current_user))"

definition route_get_all_solicitudes ::
  "client \<Rightarrow> SolicitudMongoModel \<Rightarrow> string \<Rightarrow> string option \<Rightarrow> dict list outcome" where
  "route_get_all_solicitudes client_get db credentials user_type =
     depends_user_clinic client_get credentials user_type (get_all_solicitudes db)"

definition route_get_solicitudes_by_status ::
  "(string \<Rightarrow> string) \<Rightarrow> (string \<Rightarrow> string) \<Rightarrow> client \<Rightarrow> string list \<Rightarrow> SolicitudMongoModel
     \<Rightarrow> string \<Rightarrow> string option \<Rightarrow> string option \<Rightarrow> string option \<Rightarrow> string option
     \<Rightarrow> string option \<Rightarrow> string option \<Rightarrow> dict list outcome" where
  "route_get_solicitudes_by_status str_strip str_title client_get ESTADOS_PERMITIDOS db
       credentials user_type estado especie tipo_sangre urgencia localidad =
     depends_user_clinic client_get credentials user_type
       (\<lambda>current_user. get_solicitudes_by_status str_strip str_title ESTADOS_PERMITIDOS db
                          current_user estado especie tipo_sangre urgencia localidad)"

definition route_get_solicitud_by_id ::
  "client \<Rightarrow> SolicitudMongoModel \<Rightarrow> string \<Rightarrow> string option \<Rightarrow> string \<Rightarrow> dict outcome" where
  "route_get_solicitud_by_id client_get db credentials user_type solicitud_id =
     depends_user_clinic client_get credentials user_type (get_solicitud_by_id db solicitud_id)"

section \<open>Create endpoint (app/api/v1/endpoints/solicitudes/vet/post.py)\<close>

text \<open>The schema \<open>SolicitudCreateWithImage\<close> (app/schemas/solicitud.py) is not among the
  sources. Its fields are taken from the constructor call of the endpoint, which passes
  exactly these eleven; its validation is a parameter \<open>validate\<close> that returns the
  validated model or the list of errors (location and message) of the ValidationError.\<close>

record SolicitudCreateWithImage =
  nombre_veterinaria :: string
  nombre_mascota :: string
  especie :: string
  localidad :: string
  descripcion_solicitud :: string
  direccion :: string
  ubicacion :: string
  contacto :: string
  peso_minimo :: real
  tipo_sangre :: string
  urgencia :: string

type_synonym validator =
  "SolicitudCreateWithImage \<Rightarrow> (string list \<times> string) list + SolicitudCreateWithImage"

definition model_dump :: "SolicitudCreateWithImage \<Rightarrow> dict" where
  "model_dump m =
     [(''nombre_veterinaria'', PStr (nombre_veterinaria m)),
      (''nombre_mascota'', PStr (nombre_mascota m)),
      (''especie'', PStr (especie m)),
      (''localidad'', PStr (localidad m)),
      (''descripcion_solicitud'', PStr (descripcion_solicitud m)),
      (''direccion'', PStr (direccion m)),
      (''ubicacion'', PStr (ubicacion m)),
      (''contacto'', PStr (contacto m)),
      (''peso_minimo'', PFloat (peso_minimo m)),
      (''tipo_sangre'', PStr (tipo_sangre m)),
      (''urgencia'', PStr (urgencia m))]"

text \<open>A dict display \<open>{k1: v1, ..., **d}\<close>: the keys of \<open>d\<close> are stored in order, and a key
  already present keeps its place and takes the new value.\<close>

definition dict_spread :: "dict \<Rightarrow> dict \<Rightarrow> dict" where
  "dict_spread base d = foldl (\<lambda>acc kv. AList.update (fst kv) (snd kv) acc) base d"

definition error_detail :: "string list \<times> string \<Rightarrow> string" where
  "error_detail error =
     (if fst error \<noteq> [] then hd (fst error) else ''unknown'') @ '': '' @ snd error"

text \<open>\<open>upload_image file public_id\<close> is the outcome of the upload: the URL or the
  exception raised. \<open>token_hex\<close> is what \<open>secrets.token_hex(12)\<close> returns and \<open>now\<close> what
  \<open>datetime.now().isoformat()\<close> returns. An uploaded file is its content; the optional
  file is \<open>None\<close> when no image was sent.\<close>

definition nueva_solicitud :: "string \<Rightarrow> string \<Rightarrow> string option \<Rightarrow> SolicitudCreateWithImage \<Rightarrow> dict" where
  "nueva_solicitud solicitud_id now foto_url solicitud_validada =
     dict_spread
       [(''id'', PStr solicitud_id),
        (''fecha_creacion'', PStr now),
        (''estado'', PStr ''Activa''),
        (''foto_mascota'', (case foto_url of None \<Rightarrow> PNone | Some url \<Rightarrow> PStr url))]
       (model_dump solicitud_validada)"

definition create_solicitud ::
  "validator \<Rightarrow> (string \<Rightarrow> string \<Rightarrow> exn + string) \<Rightarrow> string \<Rightarrow> string \<Rightarrow> SolicitudMongoModel
     \<Rightarrow> json_value \<Rightarrow> SolicitudCreateWithImage \<Rightarrow> string option \<Rightarrow> dict outcome" where
  "create_solicitud validate upload_image token_hex now db current_user_id form foto_mascota =
     (case validate form of
        Inl errors \<Rightarrow>
          (Inl (HTTPException 422
                  (Report (''Error de validaci'' @ o_acute @ ''n en los datos de la solicitud'')
                     (map error_detail errors))), [])
      | Inr solicitud_validada \<Rightarrow>
          (let solicitud_id = token_hex;
               foto = (case foto_mascota of
                         None \<Rightarrow> Inr None
                       | Some file \<Rightarrow>
                           (case upload_image file solicitud_id of
                              Inl e \<Rightarrow>
                                Inl (HTTPException 400
                                       (Formatted ''Error al subir la imagen: '' e))
                            | Inr url \<Rightarrow> Inr (Some url)))
           in case foto of
                Inl e \<Rightarrow> (Inl e, [])
              | Inr foto_url \<Rightarrow>
                  (let nueva = nueva_solicitud solicitud_id now foto_url solicitud_validada
                   in (Inr (create_solicitud_with_owner db nueva current_user_id),
                       [Create_with_owner nueva current_user_id]))))"

text \<open>The route of the create endpoint.\<close>

definition depends_user_id_clinic ::
  "client \<Rightarrow> string \<Rightarrow> string option \<Rightarrow> (json_value \<Rightarrow> 'a outcome) \<Rightarrow> 'a outcome" where
  "depends_user_id_clinic client_get credentials user_type handler =
     (case get_current_user_id client_get credentials user_type of
        Inl e \<Rightarrow> (Inl e, [])
      | Inr current_user_id \<Rightarrow>
          (case get_current_user_id_clinic current_user_id of
             Inl e \<Rightarrow> (Inl e, [])
           | Inr current_user_id \<Rightarrow> handler current_user_id))"

definition route_create_solicitud ::
  "client \<Rightarrow> validator \<Rightarrow> (string \<Rightarrow> string \<Rightarrow> exn + string) \<Rightarrow> string \<Rightarrow> string
     \<Rightarrow> SolicitudMongoModel \<Rightarrow> string \<Rightarrow> string option \<Rightarrow> SolicitudCreateWithImage
     \<Rightarrow> string option \<Rightarrow> dict outcome" where
  "route_create_solicitud client_get validate upload_image token_hex now db credentials
       user_type form foto_mascota =
     depends_user_id_clinic client_get credentials user_type
       (\<lambda>current_user_id. create_solicitud validate upload_image token_hex now db
                             current_user_id form foto_mascota)"

text \<open>The identifier that the authentication service reports for a token, if any: the
  \<open>id\<close> of the profile returned by \<open>get_user_profile_from_token\<close>.\<close>

definition profile_id :: "client \<Rightarrow> string \<Rightarrow> json_value option" where
  "profile_id client_get credentials =
     (case get_user_profile_from_token client_get credentials of
        Inr (JObj d) \<Rightarrow> map_of d ''id''
      | _ \<Rightarrow> None)"

text \<open>A decoded body from which a user can be built: a dict whose \<open>id\<close> is a string and
  whose \<open>email\<close>, if there is one, is a string.\<close>

definition usable_profile :: "json_value \<Rightarrow> bool" where
  "usable_profile body =
     (case body of
        JObj d \<Rightarrow>
          (case map_of d ''id'' of
             Some (JStr i) \<Rightarrow>
               (case map_of d ''email'' of
                  None \<Rightarrow> True
                | Some (JStr e) \<Rightarrow> True
                | Some _ \<Rightarrow> False)
           | _ \<Rightarrow> False)
      | _ \<Rightarrow> False)"

section \<open>Concrete collaborators\<close>

text \<open>Fixed collaborators on which the endpoints are evaluated: an authentication service
  that answers 200 with a profile, one whose profile has no \<open>id\<close>, one whose body is a
  list, one whose body cannot be decoded, one that answers 401, and one that cannot be
  reached; a store that holds one document; a validator that accepts every form; an
  upload that succeeds and one that fails.\<close>

definition perfil :: json_value where
  "perfil = JObj [(''id'', JStr ''u1''), (''email'', JStr ''vet@example.com'')]"

definition auth_ok :: client where
  "auth_ok token = Inr \<lparr>status_code = 200, json = Inr perfil\<rparr>"

definition auth_sin_id :: client where
  "auth_sin_id token =
     Inr \<lparr>status_code = 200, json = Inr (JObj [(''email'', JStr ''vet@example.com'')])\<rparr>"

definition auth_lista :: client where
  "auth_lista token = Inr \<lparr>status_code = 200, json = Inr (JArr [])\<rparr>"

definition auth_mal_json :: client where
  "auth_mal_json token = Inr \<lparr>status_code = 200, json = Inl (OtherException ''JSONDecodeError'')\<rparr>"

definition auth_rechaza :: client where
  "auth_rechaza token = Inr \<lparr>status_code = 401, json = Inr (JObj [])\<rparr>"

definition auth_caido :: client where
  "auth_caido token = Inl RequestError"

definition doc1 :: dict where
  "doc1 = [(''id'', PStr ''s1''), (''estado'', PStr ''Activa''), (''ownerId'', PStr ''u1'')]"

definition doc2 :: dict where
  "doc2 = [(''id'', PStr ''s2''), (''estado'', PStr ''Cancelada''), (''ownerId'', PStr ''u1'')]"

definition doc3 :: dict where
  "doc3 = [(''id'', PStr ''s3''), (''estado'', PStr ''Activa''), (''ownerId'', PStr ''u2'')]"

definition sin_otros :: "string option \<Rightarrow> string option \<Rightarrow> string option \<Rightarrow> string option \<Rightarrow> dict \<Rightarrow> bool" where
  "sin_otros esp ts urg loc d = True"

definition db1 :: SolicitudMongoModel where
  "db1 = \<lparr>get_solicitudes_by_owner = (\<lambda>owner. if owner = ''u1'' then [doc1] else []),
          filter_solicitudes_by_owner_and_status =
            (\<lambda>owner estado esp ts urg loc.
                if owner = ''u1'' \<and> (estado = None \<or> estado = Some ''Activa'') then [doc1] else []),
          get_solicitud_by_id_and_owner =
            (\<lambda>solicitud_id owner.
                if solicitud_id = ''s1'' \<and> owner = ''u1'' then Some doc1 else None),
          create_solicitud_with_owner =
            (\<lambda>solicitud owner.
                case owner of
                  JStr s \<Rightarrow> AList.update ''ownerId'' (PStr s) solicitud
                | _ \<Rightarrow> solicitud)\<rparr>"

definition db2 :: SolicitudMongoModel where
  "db2 = db1\<lparr>filter_solicitudes_by_owner_and_status :=
               filtrar_por_igualdad [doc1, doc2, doc3] sin_otros\<rparr>"

definition form1 :: SolicitudCreateWithImage where
  "form1 = \<lparr>nombre_veterinaria = ''AnimalCare'', nombre_mascota = ''Canela'',
            especie = ''Perro'', localidad = ''Suba'', descripcion_solicitud = ''Anemia'',
            direccion = ''Av. 19'', ubicacion = ''Bogota'', contacto = ''301'',
            peso_minimo = 18, tipo_sangre = ''DEA 1.1+'', urgencia = ''Alta''\<rparr>"

definition acepta :: validator where
  "acepta form = Inr form"

definition subida_ok :: "string \<Rightarrow> string \<Rightarrow> exn + string" where
  "subida_ok file public_id = Inr (''https://img/'' @ public_id)"

definition subida_falla :: "string \<Rightarrow> string \<Rightarrow> exn + string" where
  "subida_falla file public_id = Inl (OtherException ''upload failed'')"

definition clinica :: AuthenticatedUser where
  "clinica = \<lparr>user_id = ''u1'', email = ''vet@example.com'', userType = CLINIC\<rparr>"

section \<open>The authentication call\<close>

text \<open>The outcome of \<open>get_user_profile_from_token\<close> for each outcome of the remote call.
  The HTTPException 401 raised inside the \<open>try\<close> block is itself caught by
  \<open>except Exception\<close>, so a reply other than 200 leaves the function as a 500.\<close>

lemma get_user_profile_from_token_cases:
  "get_user_profile_from_token cg tok =
     (case cg tok of
        Inl RequestError \<Rightarrow>
          Inl (HTTPException 503 (Text (''Servicio de autenticaci'' @ o_acute @ ''n no disponible'')))
      | Inl _ \<Rightarrow>
          Inl (HTTPException 500
                 (Text (''Error interno del servidor de autenticaci'' @ o_acute @ ''n'')))
      | Inr r \<Rightarrow>
          if status_code r = 200 then
            (case json r of
               Inr p \<Rightarrow> Inr p
             | Inl RequestError \<Rightarrow>
                 Inl (HTTPException 503
                        (Text (''Servicio de autenticaci'' @ o_acute @ ''n no disponible'')))
             | Inl _ \<Rightarrow>
                 Inl (HTTPException 500
                        (Text (''Error interno del servidor de autenticaci'' @ o_acute @ ''n''))))
          else
            Inl (HTTPException 500
                   (Text (''Error interno del servidor de autenticaci'' @ o_acute @ ''n''))))"
  by (simp add: get_user_profile_from_token_def profile_try_body_def
           split: sum.splits exn.splits)

lemma non_200_reply_is_a_500:
  "cg tok = Inr r \<Longrightarrow> status_code r \<noteq> 200 \<Longrightarrow>
   get_user_profile_from_token cg tok =
     Inl (HTTPException 500
            (Text (''Error interno del servidor de autenticaci'' @ o_acute @ ''n'')))"
  by (simp add: get_user_profile_from_token_cases)

lemma rejected_token_is_a_500:
  "get_user_profile_from_token auth_rechaza ''tok'' =
     Inl (HTTPException 500
            (Text (''Error interno del servidor de autenticaci'' @ o_acute @ ''n'')))"
  by (simp add: non_200_reply_is_a_500 [of auth_rechaza "''tok''"] auth_rechaza_def)

text \<open>C2, as stated, fails: besides the profile, a 401 and a 503 there is a fourth
  outcome. On a 200 reply whose body cannot be decoded, \<open>response.json()\<close> raises inside
  the \<open>try\<close> block and the function raises HTTP 500.\<close>

theorem profile_call_fourth_outcome:
  "get_user_profile_from_token auth_mal_json ''tok'' =
     Inl (HTTPException 500
            (Text (''Error interno del servidor de autenticaci'' @ o_acute @ ''n'')))"
  by (simp add: get_user_profile_from_token_def profile_try_body_def auth_mal_json_def)

text \<open>C2, amended: the call returns the decoded profile on a 200 reply whose body decodes,
  and only then; it raises HTTP 503 on a connection or request error; it raises HTTP 500
  on any other exception of the client or of the decoder; and every outcome is either
  the profile or an HTTPException.\<close>

theorem get_user_profile_from_token_outcomes:
  "(\<forall>r p. cg tok = Inr r \<and> status_code r = 200 \<and> json r = Inr p \<longrightarrow>
        get_user_profile_from_token cg tok = Inr p)
   \<and> (cg tok = Inl RequestError \<longrightarrow>
        get_user_profile_from_token cg tok =
          Inl (HTTPException 503
                 (Text (''Servicio de autenticaci'' @ o_acute @ ''n no disponible''))))
   \<and> (\<forall>e. e \<noteq> RequestError \<and>
          (cg tok = Inl e \<or> (\<exists>r. cg tok = Inr r \<and> status_code r = 200 \<and> json r = Inl e)) \<longrightarrow>
        get_user_profile_from_token cg tok =
          Inl (HTTPException 500
                 (Text (''Error interno del servidor de autenticaci'' @ o_acute @ ''n''))))
   \<and> (\<forall>p. get_user_profile_from_token cg tok = Inr p \<longrightarrow>
          (\<exists>r. cg tok = Inr r \<and> status_code r = 200 \<and> json r = Inr p))
   \<and> ((\<exists>p. get_user_profile_from_token cg tok = Inr p)
        \<or> (\<exists>s d. get_user_profile_from_token cg tok = Inl (HTTPException s d)))"
  unfolding get_user_profile_from_token_cases
  by (auto split: sum.splits exn.splits)

theorem get_user_profile_from_token_outcomes_witness:
  "get_user_profile_from_token auth_ok ''tok'' = Inr perfil
   \<and> get_user_profile_from_token auth_caido ''tok'' =
       Inl (HTTPException 503
              (Text (''Servicio de autenticaci'' @ o_acute @ ''n no disponible'')))
   \<and> get_user_profile_from_token auth_mal_json ''tok'' =
       Inl (HTTPException 500
              (Text (''Error interno del servidor de autenticaci'' @ o_acute @ ''n'')))"
  using get_user_profile_from_token_outcomes [of auth_ok "''tok''"]
        get_user_profile_from_token_outcomes [of auth_caido "''tok''"]
        get_user_profile_from_token_outcomes [of auth_mal_json "''tok''"]
  by (simp add: auth_ok_def auth_caido_def auth_mal_json_def)

section \<open>The authenticated user\<close>

lemma get_current_user_Inr:
  "get_current_user cg cred ut = Inr u \<Longrightarrow>
   \<exists>d. get_user_profile_from_token cg cred = Inr (JObj d)
       \<and> map_of d ''id'' = Some (JStr (user_id u))
       \<and> UserType_value (userType u) = (case ut of None \<Rightarrow> ''clinic'' | Some s \<Rightarrow> s)"
  by (auto simp: get_current_user_def Let_def subscript_def AuthenticatedUser_init_def
                 UserType_of_def str_field_def
           split: if_splits sum.splits option.splits json_value.splits)

lemma get_current_user_id_Inr:
  "get_current_user_id cg cred ut = Inr v \<Longrightarrow>
   \<exists>d. get_user_profile_from_token cg cred = Inr (JObj d) \<and> map_of d ''id'' = Some v"
  by (auto simp: get_current_user_id_def Let_def subscript_def
           split: if_splits sum.splits option.splits json_value.splits)

lemma profile_error_is_http:
  "get_user_profile_from_token cg cred = Inl e \<Longrightarrow> \<exists>s d. e = HTTPException s d"
  by (auto simp: get_user_profile_from_token_cases split: sum.splits exn.splits if_splits)

text \<open>What \<open>get_current_user\<close> does with the body that the authentication service
  returned, for a header value that is accepted.\<close>

lemma get_current_user_on_dict:
  assumes "get_user_profile_from_token cg cred = Inr (JObj d)"
    and "ut = None \<or> ut = Some ''owner'' \<or> ut = Some ''clinic''"
  shows "get_current_user cg cred ut =
           (case map_of d ''id'' of
              None \<Rightarrow> Inl (KeyError ''id'')
            | Some i \<Rightarrow>
                AuthenticatedUser_init i (dict_get d ''email'' (JStr ''user@example.com''))
                  (case ut of None \<Rightarrow> ''clinic'' | Some s \<Rightarrow> s))"
  using assms
  by (auto simp: get_current_user_def Let_def subscript_def split: option.splits)

lemma get_current_user_on_other:
  assumes "get_user_profile_from_token cg cred = Inr body"
    and "\<forall>d. body \<noteq> JObj d"
    and "ut = None \<or> ut = Some ''owner'' \<or> ut = Some ''clinic''"
  shows "get_current_user cg cred ut = Inl TypeError"
  using assms
  by (cases body) (auto simp: get_current_user_def Let_def subscript_def)

lemma AuthenticatedUser_init_cases:
  "t = ''owner'' \<or> t = ''clinic'' \<Longrightarrow>
   AuthenticatedUser_init i e t =
     (case str_field i of
        None \<Rightarrow> Inl (ValidationError (field_errors i e t))
      | Some i' \<Rightarrow>
          (case str_field e of
             None \<Rightarrow> Inl (ValidationError (field_errors i e t))
           | Some e' \<Rightarrow>
               Inr \<lparr>user_id = i', email = e',
                    userType = (if t = ''owner'' then OWNER else CLINIC)\<rparr>))"
  by (auto simp: AuthenticatedUser_init_def UserType_of_def split: option.splits)

lemma str_field_Some: "str_field v = Some s \<longleftrightarrow> v = JStr s"
  by (cases v) (simp_all add: str_field_def)

lemma str_field_None: "str_field v = None \<longleftrightarrow> (\<forall>s. v \<noteq> JStr s)"
  by (cases v) (simp_all add: str_field_def)

lemma usable_profile_dict:
  "usable_profile (JObj d) \<longleftrightarrow>
     (\<exists>i. map_of d ''id'' = Some (JStr i))
     \<and> (\<exists>e. dict_get d ''email'' (JStr ''user@example.com'') = JStr e)"
proof (cases "map_of d ''id''")
  case None
  then show ?thesis by (simp add: usable_profile_def)
next
  case (Some v)
  show ?thesis
  proof (cases "map_of d ''email''")
    case None
    with Some show ?thesis
      by (cases v) (simp_all add: usable_profile_def dict_get_def)
  next
    case em: (Some w)
    with Some show ?thesis
      by (cases v; cases w) (simp_all add: usable_profile_def dict_get_def)
  qed
qed

lemma usable_profile_is_dict: "usable_profile body \<Longrightarrow> \<exists>d. body = JObj d"
  by (cases body) (simp_all add: usable_profile_def)

lemma get_current_user_on_body:
  assumes p: "get_user_profile_from_token cg cred = Inr body"
    and h: "ut = None \<or> ut = Some ''owner'' \<or> ut = Some ''clinic''"
  shows "usable_profile body \<Longrightarrow> \<exists>u. get_current_user cg cred ut = Inr u"
    and "\<not> usable_profile body \<Longrightarrow>
           get_current_user cg cred ut = Inl (KeyError ''id'')
           \<or> get_current_user cg cred ut = Inl TypeError
           \<or> (\<exists>errs. get_current_user cg cred ut = Inl (ValidationError errs))"
proof -
  let ?t = "case ut of None \<Rightarrow> ''clinic'' | Some s \<Rightarrow> s"
  from h have t: "?t = ''owner'' \<or> ?t = ''clinic''" by auto
  {
    assume "usable_profile body"
    then obtain d i e where d: "body = JObj d" "map_of d ''id'' = Some (JStr i)"
        "dict_get d ''email'' (JStr ''user@example.com'') = JStr e"
      using usable_profile_is_dict usable_profile_dict by blast
    from get_current_user_on_dict [OF p [unfolded d(1)] h] d(2,3)
    have "get_current_user cg cred ut = AuthenticatedUser_init (JStr i) (JStr e) ?t"
      by simp
    with AuthenticatedUser_init_cases [OF t, of "JStr i" "JStr e"]
    show "\<exists>u. get_current_user cg cred ut = Inr u"
      by (simp add: str_field_def)
  }
  {
    assume n: "\<not> usable_profile body"
    show "get_current_user cg cred ut = Inl (KeyError ''id'')
           \<or> get_current_user cg cred ut = Inl TypeError
           \<or> (\<exists>errs. get_current_user cg cred ut = Inl (ValidationError errs))"
    proof (cases "\<exists>d. body = JObj d")
      case False
      with get_current_user_on_other [OF p _ h] show ?thesis by blast
    next
      case True
      then obtain d where d: "body = JObj d" by blast
      note g = get_current_user_on_dict [OF p [unfolded d] h]
      show ?thesis
      proof (cases "map_of d ''id''")
        case None
        with g show ?thesis by simp
      next
        case (Some v)
        let ?e = "dict_get d ''email'' (JStr ''user@example.com'')"
        from g Some have r: "get_current_user cg cred ut = AuthenticatedUser_init v ?e ?t"
          by simp
        from n d have "\<not> ((\<exists>i. map_of d ''id'' = Some (JStr i)) \<and> (\<exists>e. ?e = JStr e))"
          by (simp add: usable_profile_dict)
        with Some have "str_field v = None \<or> str_field ?e = None"
          by (auto simp: str_field_None)
        with AuthenticatedUser_init_cases [OF t, of v ?e] r show ?thesis
          by (auto split: option.splits)
      qed
    qed
  }
qed

lemma body_that_is_a_list:
  "get_current_user auth_lista ''tok'' None = Inl TypeError"
  by (simp add: get_current_user_def get_user_profile_from_token_def profile_try_body_def
        auth_lista_def subscript_def)

lemma rejected_header:
  "ut = Some s \<Longrightarrow> s \<noteq> ''owner'' \<Longrightarrow> s \<noteq> ''clinic'' \<Longrightarrow>
   get_current_user cg cred ut = Inl userType_invalido"
  by (simp add: get_current_user_def)

text \<open>C8, as stated, fails: when the authentication service answers 200 with a profile
  that has no \<open>id\<close>, \<open>user_profile["id"]\<close> raises KeyError, which is not an HTTPException,
  and no user is returned.\<close>

theorem get_current_user_profile_without_id:
  "get_current_user auth_sin_id ''tok'' None = Inl (KeyError ''id'')"
  by (simp add: get_current_user_def get_user_profile_from_token_def profile_try_body_def
        auth_sin_id_def subscript_def)

text \<open>C8, amended: for every request, \<open>get_current_user\<close> raises an HTTPException; or, when
  the authentication service answered 200 with a body that is not a dict with a string
  \<open>id\<close> (and a string \<open>email\<close>, if any), it raises KeyError, TypeError or the schema's
  ValidationError; or it returns a user whose userType is \<open>owner\<close> or \<open>clinic\<close> (the
  header's value, \<open>clinic\<close> when the header is absent). A supplied header value outside
  these two is rejected with HTTP 400.\<close>

theorem get_current_user_userType:
  "((\<exists>s d. get_current_user cg cred ut = Inl (HTTPException s d))
     \<or> ((get_current_user cg cred ut = Inl (KeyError ''id'')
           \<or> get_current_user cg cred ut = Inl TypeError
           \<or> (\<exists>errs. get_current_user cg cred ut = Inl (ValidationError errs)))
         \<and> (\<exists>body. get_user_profile_from_token cg cred = Inr body \<and> \<not> usable_profile body))
     \<or> (\<exists>u. get_current_user cg cred ut = Inr u
            \<and> UserType_value (userType u) \<in> {''owner'', ''clinic''}
            \<and> UserType_value (userType u) = (case ut of None \<Rightarrow> ''clinic'' | Some s \<Rightarrow> s)))
   \<and> (\<forall>s. ut = Some s \<and> s \<notin> {''owner'', ''clinic''} \<longrightarrow>
          get_current_user cg cred ut =
            Inl (HTTPException 400
                   (Text (''userType inv'' @ a_acute @ ''lido. Debe ser '' @ quoted ''owner''
                          @ '' o '' @ quoted ''clinic''))))"
proof (intro conjI allI impI)
  let ?t = "case ut of None \<Rightarrow> ''clinic'' | Some s \<Rightarrow> s"
  show "(\<exists>s d. get_current_user cg cred ut = Inl (HTTPException s d))
     \<or> ((get_current_user cg cred ut = Inl (KeyError ''id'')
           \<or> get_current_user cg cred ut = Inl TypeError
           \<or> (\<exists>errs. get_current_user cg cred ut = Inl (ValidationError errs)))
         \<and> (\<exists>body. get_user_profile_from_token cg cred = Inr body \<and> \<not> usable_profile body))
     \<or> (\<exists>u. get_current_user cg cred ut = Inr u
            \<and> UserType_value (userType u) \<in> {''owner'', ''clinic''}
            \<and> UserType_value (userType u) = ?t)"
  proof (cases "ut = None \<or> ut = Some ''owner'' \<or> ut = Some ''clinic''")
    case False
    then obtain s where "ut = Some s" "s \<noteq> ''owner''" "s \<noteq> ''clinic''"
      by (cases ut) auto
    from rejected_header [OF this] show ?thesis
      by (simp add: userType_invalido_def)
  next
    case header: True
    then have t: "?t \<in> {''owner'', ''clinic''}" by auto
    show ?thesis
    proof (cases "get_user_profile_from_token cg cred")
      case (Inl e)
      with header have "get_current_user cg cred ut = Inl e"
        by (auto simp: get_current_user_def)
      with profile_error_is_http [OF Inl] show ?thesis by auto
    next
      case (Inr body)
      show ?thesis
      proof (cases "usable_profile body")
        case True
        from get_current_user_on_body(1) [OF Inr header True]
        obtain u where u: "get_current_user cg cred ut = Inr u" by blast
        from get_current_user_Inr [OF u]
        have "UserType_value (userType u) = ?t" by blast
        with u t show ?thesis by simp
      next
        case False
        from get_current_user_on_body(2) [OF Inr header False] Inr False
        show ?thesis by blast
      qed
    qed
  qed
next
  fix s assume "ut = Some s \<and> s \<notin> {''owner'', ''clinic''}"
  then have "get_current_user cg cred ut = Inl userType_invalido"
    by (simp add: rejected_header)
  then show "get_current_user cg cred ut =
            Inl (HTTPException 400
                   (Text (''userType inv'' @ a_acute @ ''lido. Debe ser '' @ quoted ''owner''
                          @ '' o '' @ quoted ''clinic'')))"
    by (simp add: userType_invalido_def)
qed

theorem get_current_user_userType_witness:
  "get_current_user auth_ok ''tok'' (Some ''admin'') =
     Inl (HTTPException 400
            (Text (''userType inv'' @ a_acute @ ''lido. Debe ser '' @ quoted ''owner''
                   @ '' o '' @ quoted ''clinic'')))"
  using get_current_user_userType [of auth_ok "''tok''" "Some ''admin''"] by simp

lemma accepted_reply:
  "cg cred = Inr r \<Longrightarrow> status_code r = 200 \<Longrightarrow> json r = Inr body \<Longrightarrow>
   get_user_profile_from_token cg cred = Inr body"
  by (simp add: get_user_profile_from_token_cases)

text \<open>C9: when the X-User-Type header is absent, \<open>get_current_user\<close> and
  \<open>get_current_user_id\<close> behave as for the header value \<open>clinic\<close>; with a token that the
  authentication service accepts (a 200 reply with a profile that has an \<open>id\<close>) the
  request is authenticated as a clinic user, who passes the clinic check, and
  \<open>get_current_user_id\<close> returns the \<open>id\<close>.\<close>

theorem absent_header_is_clinic:
  "get_current_user cg cred None = get_current_user cg cred (Some ''clinic'')
   \<and> get_current_user_id cg cred None = get_current_user_id cg cred (Some ''clinic'')
   \<and> (\<forall>r d i e. cg cred = Inr r \<and> status_code r = 200 \<and> json r = Inr (JObj d)
                \<and> map_of d ''id'' = Some (JStr i)
                \<and> dict_get d ''email'' (JStr ''user@example.com'') = JStr e \<longrightarrow>
         get_current_user cg cred None =
           Inr \<lparr>user_id = i, email = e, userType = CLINIC\<rparr>
         \<and> get_current_user_clinic \<lparr>user_id = i, email = e, userType = CLINIC\<rparr> =
           Inr \<lparr>user_id = i, email = e, userType = CLINIC\<rparr>)
   \<and> (\<forall>r d v. cg cred = Inr r \<and> status_code r = 200 \<and> json r = Inr (JObj d)
              \<and> map_of d ''id'' = Some v \<longrightarrow>
         get_current_user_id cg cred None = Inr v)"
proof (intro conjI allI impI)
  show "get_current_user cg cred None = get_current_user cg cred (Some ''clinic'')"
    by (simp add: get_current_user_def)
  show "get_current_user_id cg cred None = get_current_user_id cg cred (Some ''clinic'')"
    by (simp add: get_current_user_id_def)
next
  fix r d i e
  assume a: "cg cred = Inr r \<and> status_code r = 200 \<and> json r = Inr (JObj d)
      \<and> map_of d ''id'' = Some (JStr i)
      \<and> dict_get d ''email'' (JStr ''user@example.com'') = JStr e"
  then have p: "get_user_profile_from_token cg cred = Inr (JObj d)"
    by (simp add: accepted_reply)
  from get_current_user_on_dict [OF p, of None] a
  show "get_current_user cg cred None = Inr \<lparr>user_id = i, email = e, userType = CLINIC\<rparr>"
    by (simp add: AuthenticatedUser_init_def str_field_def UserType_of_def)
next
  fix r d i e
  show "get_current_user_clinic \<lparr>user_id = i, email = e, userType = CLINIC\<rparr> =
           Inr \<lparr>user_id = i, email = e, userType = CLINIC\<rparr>"
    by (simp add: get_current_user_clinic_def verify_user_type_def)
next
  fix r d v
  assume a: "cg cred = Inr r \<and> status_code r = 200 \<and> json r = Inr (JObj d)
      \<and> map_of d ''id'' = Some v"
  then have p: "get_user_profile_from_token cg cred = Inr (JObj d)"
    by (simp add: accepted_reply)
  with a show "get_current_user_id cg cred None = Inr v"
    by (simp add: get_current_user_id_def subscript_def)
qed

theorem absent_header_is_clinic_witness:
  "get_current_user auth_ok ''tok'' None =
     Inr \<lparr>user_id = ''u1'', email = ''vet@example.com'', userType = CLINIC\<rparr>
   \<and> get_current_user_id auth_ok ''tok'' None = Inr (JStr ''u1'')"
proof -
  let ?d = "[(''id'', JStr ''u1''), (''email'', JStr ''vet@example.com'')]"
  let ?r = "\<lparr>status_code = 200, json = Inr (JObj ?d)\<rparr>"
  have h1: "auth_ok ''tok'' = Inr ?r \<and> status_code ?r = 200 \<and> json ?r = Inr (JObj ?d)
           \<and> map_of ?d ''id'' = Some (JStr ''u1'')
           \<and> dict_get ?d ''email'' (JStr ''user@example.com'') = JStr ''vet@example.com''"
    by (simp add: auth_ok_def perfil_def dict_get_def)
  then have h2: "auth_ok ''tok'' = Inr ?r \<and> status_code ?r = 200 \<and> json ?r = Inr (JObj ?d)
           \<and> map_of ?d ''id'' = Some (JStr ''u1'')"
    by blast
  note t = absent_header_is_clinic [of auth_ok "''tok''"]
  from t h1 have "get_current_user auth_ok ''tok'' None =
     Inr \<lparr>user_id = ''u1'', email = ''vet@example.com'', userType = CLINIC\<rparr>"
    by blast
  moreover from t h2 have "get_current_user_id auth_ok ''tok'' None = Inr (JStr ''u1'')"
    by blast
  ultimately show ?thesis by simp
qed

section \<open>Access by user type\<close>

text \<open>The three read routes reject a user of any other type than clinic with HTTP 403
  and issue no store call.\<close>

lemma read_routes_reject_other_types:
  assumes "get_current_user cg cred ut = Inr u" and "userType u \<noteq> CLINIC"
  shows "route_get_all_solicitudes cg db cred ut =
           (Inl (HTTPException 403
                   (Text ''Acceso denegado. Se requiere uno de los siguientes tipos: clinic'')),
            [])"
    and "route_get_solicitudes_by_status str_strip str_title cg EP db cred ut est esp ts urg loc =
           (Inl (HTTPException 403
                   (Text ''Acceso denegado. Se requiere uno de los siguientes tipos: clinic'')),
            [])"
    and "route_get_solicitud_by_id cg db cred ut sid =
           (Inl (HTTPException 403
                   (Text ''Acceso denegado. Se requiere uno de los siguientes tipos: clinic'')),
            [])"
  using assms
  by (simp_all add: route_get_all_solicitudes_def route_get_solicitudes_by_status_def
        route_get_solicitud_by_id_def depends_user_clinic_def get_current_user_clinic_def
        verify_user_type_def)

text \<open>C1 does not hold of the create route: its dependency \<open>get_current_user_id_clinic\<close>
  returns the id without checking the user type. A request with the header
  \<open>X-User-Type: owner\<close> and a token that the authentication service accepts is not
  rejected: the solicitud is built and written to the store under the owner's id.\<close>

theorem create_route_accepts_owner:
  "route_create_solicitud auth_ok acepta subida_ok ''abc'' ''2025-06-13T21:01:38'' db1 ''tok''
      (Some ''owner'') form1 None =
     (Inr (create_solicitud_with_owner db1
             (nueva_solicitud ''abc'' ''2025-06-13T21:01:38'' None form1) (JStr ''u1'')),
      [Create_with_owner (nueva_solicitud ''abc'' ''2025-06-13T21:01:38'' None form1)
         (JStr ''u1'')])"
  by (simp add: route_create_solicitud_def depends_user_id_clinic_def get_current_user_id_def
        get_user_profile_from_token_def profile_try_body_def auth_ok_def perfil_def
        subscript_def get_current_user_id_clinic_def create_solicitud_def acepta_def Let_def)

section \<open>Creation\<close>

lemma map_of_dict_spread:
  "map_of (dict_spread base d) k =
     (case map_of (rev d) k of Some v \<Rightarrow> Some v | None \<Rightarrow> map_of base k)"
  unfolding dict_spread_def
  by (induction d arbitrary: base) (auto simp: update_conv' map_add_def split: option.splits)

lemma nueva_solicitud_estado:
  "map_of (nueva_solicitud sid now foto v) ''estado'' = Some (PStr ''Activa'')"
  by (simp add: nueva_solicitud_def map_of_dict_spread model_dump_def)

text \<open>C3: whenever the create endpoint returns (the form was accepted and the upload, if
  any, succeeded), it has issued exactly one store write, for the authenticated user, and
  the document written has \<open>estado\<close> equal to \<open>Activa\<close>, whatever the form, the image, the
  identifier and the clock.\<close>

theorem created_with_estado_activa:
  "create_solicitud validate up th now db uid form foto = (Inr created, calls) \<Longrightarrow>
   \<exists>doc. calls = [Create_with_owner doc uid]
        \<and> created = create_solicitud_with_owner db doc uid
        \<and> map_of doc ''estado'' = Some (PStr ''Activa'')"
  by (auto simp: create_solicitud_def Let_def nueva_solicitud_estado
           split: sum.splits option.splits)

theorem created_with_estado_activa_witness:
  "create_solicitud acepta subida_ok ''abc'' ''2025'' db1 (JStr ''u1'') form1 (Some ''png'') =
     (Inr (create_solicitud_with_owner db1
             (nueva_solicitud ''abc'' ''2025'' (Some ''https://img/abc'') form1) (JStr ''u1'')),
      [Create_with_owner (nueva_solicitud ''abc'' ''2025'' (Some ''https://img/abc'') form1)
         (JStr ''u1'')])
   \<and> map_of (nueva_solicitud ''abc'' ''2025'' (Some ''https://img/abc'') form1) ''estado'' =
       Some (PStr ''Activa'')"
proof -
  have eq: "create_solicitud acepta subida_ok ''abc'' ''2025'' db1 (JStr ''u1'') form1
              (Some ''png'') =
     (Inr (create_solicitud_with_owner db1
             (nueva_solicitud ''abc'' ''2025'' (Some ''https://img/abc'') form1) (JStr ''u1'')),
      [Create_with_owner (nueva_solicitud ''abc'' ''2025'' (Some ''https://img/abc'') form1)
         (JStr ''u1'')])"
    by (simp add: create_solicitud_def acepta_def subida_ok_def Let_def)
  from created_with_estado_activa [OF eq]
  have "map_of (nueva_solicitud ''abc'' ''2025'' (Some ''https://img/abc'') form1) ''estado'' =
          Some (PStr ''Activa'')"
    by auto
  with eq show ?thesis by simp
qed

text \<open>C7: when an image is supplied and its upload raises, the store is not written; and
  when the form had been accepted, so that the upload was attempted, the endpoint fails
  with HTTP 400.\<close>

theorem failed_upload_is_400:
  "up file th = Inl e \<Longrightarrow>
     snd (create_solicitud validate up th now db uid form (Some file)) = []
     \<and> (\<forall>v. validate form = Inr v \<longrightarrow>
           create_solicitud validate up th now db uid form (Some file) =
             (Inl (HTTPException 400 (Formatted ''Error al subir la imagen: '' e)), []))"
  by (auto simp: create_solicitud_def Let_def split: sum.splits)

theorem failed_upload_is_400_witness:
  "create_solicitud acepta subida_falla ''abc'' ''2025'' db1 (JStr ''u1'') form1 (Some ''png'') =
     (Inl (HTTPException 400
             (Formatted ''Error al subir la imagen: '' (OtherException ''upload failed''))),
      [])"
proof -
  have a: "subida_falla ''png'' ''abc'' = Inl (OtherException ''upload failed'')"
    by (simp add: subida_falla_def)
  have b: "acepta form1 = Inr form1"
    by (simp add: acepta_def)
  from failed_upload_is_400 [of subida_falla "''png''" "''abc''"
         "OtherException ''upload failed''" acepta "''2025''" db1 "JStr ''u1''" form1] a b
  show ?thesis by blast
qed

section \<open>Reading\<close>

text \<open>The ASCII definitions on some inputs: letters after a letter are lowered, a digit,
  a hyphen and a space are not letters, and every kind of ASCII white space is
  stripped from both ends only.\<close>

lemma ascii_title_examples:
  "ascii_title ''activa'' = ''Activa''"
  "ascii_title ''ACTIVA'' = ''Activa''"
  "ascii_title ''en pROCESO-x1y'' = ''En Proceso-X1Y''"
  "ascii_title '' activa'' = '' Activa''"
  by (simp_all add: ascii_title_def to_upper_def to_lower_def is_cased_def ascii_lowercase_def
        ascii_uppercase_def)

lemma ascii_strip_examples:
  "ascii_strip ([CHR 0x09, CHR 0x20] @ ''a b'' @ [CHR 0x0A, CHR 0x0D, CHR 0x1F]) = ''a b''"
  "ascii_strip ([CHR 0x0B, CHR 0x0C, CHR 0x1C, CHR 0x1D, CHR 0x1E, CHR 0x20]) = []"
  "ascii_strip ''activa'' = ''activa''"
  by (simp_all add: ascii_strip_def ascii_space_def)

lemma ascii_title_from_length: "length (ascii_title_from p s) = length s"
  by (induction s arbitrary: p) simp_all

lemma ascii_title_from_nth:
  "i < length s \<Longrightarrow>
   ascii_title_from p s ! i =
     (if (if i = 0 then p else is_cased (s ! (i - 1))) then to_lower (s ! i)
      else to_upper (s ! i))"
proof (induction s arbitrary: p i)
  case Nil
  then show ?case by simp
next
  case (Cons c cs)
  show ?case
  proof (cases i)
    case 0
    then show ?thesis by simp
  next
    case (Suc j)
    with Cons.prems have "j < length cs" by simp
    from Cons.IH [OF this, of "is_cased c"] Suc show ?thesis
      by (cases j) simp_all
  qed
qed

lemma ascii_title_nth:
  "i < length s \<Longrightarrow>
   ascii_title s ! i =
     (if 0 < i \<and> is_cased (s ! (i - 1)) then to_lower (s ! i) else to_upper (s ! i))"
  by (simp add: ascii_title_def ascii_title_from_nth)

lemma on_ascii_model: "on_ascii ascii_strip ascii_title"
  by (simp add: on_ascii_def)

text \<open>C4: for every \<open>estado\<close> that is not empty after trimming and whose title-cased form is
  not a permitted status, the filter endpoint raises HTTP 422 with the validation error
  and issues no store call. The two premises on \<open>s\<close> are the truth test
  \<open>estado and estado.strip()\<close> (for Python's \<open>strip\<close> the second implies the first). The
  statement holds whatever \<open>str.strip\<close> and \<open>str.title\<close> compute, so for every string, ASCII
  or not.\<close>

theorem invalid_estado_is_422:
  "s \<noteq> [] \<Longrightarrow> str_strip s \<noteq> [] \<Longrightarrow> str_title s \<notin> set EP \<Longrightarrow>
   get_solicitudes_by_status str_strip str_title EP db u (Some s) esp ts urg loc =
     (Inl (HTTPException 422
             (Report (''Error de validaci'' @ o_acute @ ''n en los par'' @ a_acute
                      @ ''metros de filtro'')
                [''estado: Estado inv'' @ a_acute @ ''lido. Los estados v'' @ a_acute
                 @ ''lidos son: '' @ join '', '' EP])), [])"
  by (simp add: get_solicitudes_by_status_def validar_estado_def Let_def)

theorem invalid_estado_is_422_witness:
  "get_solicitudes_by_status ascii_strip ascii_title [''Activa'', ''Cancelada''] db1 clinica
       (Some ''pendiente'') None None None None =
     (Inl (HTTPException 422
             (Report (''Error de validaci'' @ o_acute @ ''n en los par'' @ a_acute
                      @ ''metros de filtro'')
                [''estado: Estado inv'' @ a_acute @ ''lido. Los estados v'' @ a_acute
                 @ ''lidos son: '' @ join '', '' [''Activa'', ''Cancelada'']])), [])"
proof -
  have a: "''pendiente'' \<noteq> []" by simp
  have b: "ascii_strip ''pendiente'' \<noteq> []"
    by (simp add: ascii_strip_def ascii_space_def)
  have c: "ascii_title ''pendiente'' \<notin> set [''Activa'', ''Cancelada'']"
    by (simp add: ascii_title_def to_upper_def to_lower_def is_cased_def ascii_lowercase_def
          ascii_uppercase_def)
  from invalid_estado_is_422 [of "''pendiente''" ascii_strip ascii_title, OF a b c]
  show ?thesis .
qed

text \<open>C5: the get-by-id endpoint raises HTTP 404 "Solicitud no encontrada" exactly when
  the lookup by the solicitud id and the user's id yields no solicitud (\<open>None\<close>, or an
  empty document, which Python's \<open>not\<close> takes for false as well); a solicitud that is
  found is returned as it is. The lookup is the only store call.\<close>

theorem get_solicitud_by_id_404_iff:
  "(fst (get_solicitud_by_id db sid u) =
        Inl (HTTPException 404 (Text ''Solicitud no encontrada''))
      \<longleftrightarrow> get_solicitud_by_id_and_owner db sid (user_id u) = None
          \<or> get_solicitud_by_id_and_owner db sid (user_id u) = Some [])
   \<and> (\<forall>s. get_solicitud_by_id_and_owner db sid (user_id u) = Some s \<and> s \<noteq> [] \<longrightarrow>
          fst (get_solicitud_by_id db sid u) = Inr s)
   \<and> snd (get_solicitud_by_id db sid u) = [Get_by_id_and_owner sid (user_id u)]"
  by (auto simp: get_solicitud_by_id_def Let_def split: option.splits)

theorem get_solicitud_by_id_404_iff_witness:
  "fst (get_solicitud_by_id db1 ''s1''
          \<lparr>user_id = ''u1'', email = ''vet@example.com'', userType = CLINIC\<rparr>) = Inr doc1
   \<and> fst (get_solicitud_by_id db1 ''s1''
            \<lparr>user_id = ''u2'', email = ''otra@example.com'', userType = CLINIC\<rparr>) =
       Inl (HTTPException 404 (Text ''Solicitud no encontrada''))"
  using get_solicitud_by_id_404_iff [of db1 "''s1''"
          "\<lparr>user_id = ''u1'', email = ''vet@example.com'', userType = CLINIC\<rparr>"]
        get_solicitud_by_id_404_iff [of db1 "''s1''"
          "\<lparr>user_id = ''u2'', email = ''otra@example.com'', userType = CLINIC\<rparr>"]
  by (simp add: db1_def doc1_def)

lemma blank_estado_is_no_filter:
  "est = None \<or> est = Some [] \<or> (\<exists>s. est = Some s \<and> str_strip s = []) \<Longrightarrow>
   get_solicitudes_by_status str_strip str_title EP db u est esp ts urg loc =
     (Inr (filter_solicitudes_by_owner_and_status db (user_id u) None esp ts urg loc),
      [Filter_by_owner_and_status (user_id u) None esp ts urg loc])"
  by (auto simp: get_solicitudes_by_status_def validar_estado_def)

lemma accepted_estado_is_title_cased:
  "s \<noteq> [] \<Longrightarrow> str_strip s \<noteq> [] \<Longrightarrow> str_title s \<in> set EP \<Longrightarrow>
   get_solicitudes_by_status str_strip str_title EP db u (Some s) esp ts urg loc =
     (Inr (filter_solicitudes_by_owner_and_status db (user_id u) (Some (str_title s))
             esp ts urg loc),
      [Filter_by_owner_and_status (user_id u) (Some (str_title s)) esp ts urg loc])"
  by (simp add: get_solicitudes_by_status_def validar_estado_def Let_def)

lemma is_ascii_examples: "is_ascii ''activa''" "is_ascii ''ACTIVA''"
  by (simp_all add: is_ascii_def)

lemma title_case_on_ascii:
  assumes "on_ascii str_strip str_title" and "is_ascii s"
  shows "length (str_title s) = length s"
    and "i < length s \<Longrightarrow>
         str_title s ! i =
           (if 0 < i \<and> is_cased (s ! (i - 1)) then to_lower (s ! i) else to_upper (s ! i))"
proof -
  from assms have e: "str_title s = ascii_title s"
    unfolding on_ascii_def by blast
  show "length (str_title s) = length s"
    unfolding e by (simp add: ascii_title_def ascii_title_from_length)
  show "i < length s \<Longrightarrow>
         str_title s ! i =
           (if 0 < i \<and> is_cased (s ! (i - 1)) then to_lower (s ! i) else to_upper (s ! i))"
    unfolding e by (rule ascii_title_nth)
qed

lemma ascii_strip_literals:
  "ascii_strip ''activa'' \<noteq> []" "ascii_strip ''ACTIVA'' \<noteq> []"
  by (simp_all add: ascii_strip_def ascii_space_def)

lemma activa_on_ascii:
  assumes o: "on_ascii str_strip str_title" and p: "''Activa'' \<in> set EP"
    and s: "s = ''activa'' \<or> s = ''ACTIVA''"
  shows "get_solicitudes_by_status str_strip str_title EP db u (Some s) esp ts urg loc =
           (Inr (filter_solicitudes_by_owner_and_status db (user_id u) (Some ''Activa'')
                   esp ts urg loc),
            [Filter_by_owner_and_status (user_id u) (Some ''Activa'') esp ts urg loc])"
proof -
  from s have "is_ascii s" using is_ascii_examples by blast
  with o have m: "str_strip s = ascii_strip s" "str_title s = ascii_title s"
    unfolding on_ascii_def by blast+
  from s have n: "s \<noteq> []" by blast
  from s have "ascii_strip s \<noteq> []"
    using ascii_strip_literals by blast
  with m have st: "str_strip s \<noteq> []" by metis
  from s have "ascii_title s = ''Activa''"
    using ascii_title_examples(1,2) by blast
  with m have t: "str_title s = ''Activa''" by metis
  with p have e: "str_title s \<in> set EP" by metis
  from accepted_estado_is_title_cased [of s str_strip str_title EP db u esp ts urg loc] n st e
  show ?thesis unfolding t by blast
qed

lemma blank_estado_every_status:
  assumes "est = None \<or> est = Some [] \<or> (\<exists>s. est = Some s \<and> str_strip s = [])"
    and "filter_solicitudes_by_owner_and_status db = filtrar_por_igualdad docs otros"
  shows "fst (get_solicitudes_by_status str_strip str_title EP db u est esp ts urg loc) =
           Inr (filter (\<lambda>d. map_of d ''ownerId'' = Some (PStr (user_id u))
                            \<and> otros esp ts urg loc d) docs)"
  unfolding blank_estado_is_no_filter [OF assms(1)] assms(2)
  by (simp add: filtrar_por_igualdad_def)

text \<open>C10: \<open>estado\<close> is put in title case before it is validated and used: an accepted
  value reaches the store in its title-cased form, whatever \<open>str.strip\<close> and \<open>str.title\<close>
  compute. With the two methods as they are on ASCII text, the title-cased form has the
  first letter of each run of letters in upper case and the others in lower case, and
  \<open>activa\<close> and \<open>ACTIVA\<close> are accepted as \<open>Activa\<close> when that is a permitted status. An
  \<open>estado\<close> that is absent, empty or blank after stripping is no error: the store is
  queried with no status filter, and a store that answers by owner and equality filters
  then returns the owner's solicitudes of every status that pass the other filters.\<close>

theorem estado_title_case_and_blank:
  "(\<forall>s. s \<noteq> [] \<and> str_strip s \<noteq> [] \<and> str_title s \<in> set EP \<longrightarrow>
       get_solicitudes_by_status str_strip str_title EP db u (Some s) esp ts urg loc =
         (Inr (filter_solicitudes_by_owner_and_status db (user_id u) (Some (str_title s))
                 esp ts urg loc),
          [Filter_by_owner_and_status (user_id u) (Some (str_title s)) esp ts urg loc]))
   \<and> (on_ascii str_strip str_title \<longrightarrow>
         (\<forall>s. is_ascii s \<longrightarrow>
            length (str_title s) = length s
            \<and> (\<forall>i < length s.
                  str_title s ! i =
                    (if 0 < i \<and> is_cased (s ! (i - 1)) then to_lower (s ! i)
                     else to_upper (s ! i)))))
   \<and> (on_ascii str_strip str_title \<and> ''Activa'' \<in> set EP \<longrightarrow>
         (\<forall>s \<in> {''activa'', ''ACTIVA''}.
            get_solicitudes_by_status str_strip str_title EP db u (Some s) esp ts urg loc =
              (Inr (filter_solicitudes_by_owner_and_status db (user_id u) (Some ''Activa'')
                      esp ts urg loc),
               [Filter_by_owner_and_status (user_id u) (Some ''Activa'') esp ts urg loc])))
   \<and> (\<forall>est. est = None \<or> est = Some [] \<or> (\<exists>s. est = Some s \<and> str_strip s = []) \<longrightarrow>
         get_solicitudes_by_status str_strip str_title EP db u est esp ts urg loc =
           (Inr (filter_solicitudes_by_owner_and_status db (user_id u) None esp ts urg loc),
            [Filter_by_owner_and_status (user_id u) None esp ts urg loc]))
   \<and> (\<forall>est docs otros.
         (est = None \<or> est = Some [] \<or> (\<exists>s. est = Some s \<and> str_strip s = []))
         \<and> filter_solicitudes_by_owner_and_status db = filtrar_por_igualdad docs otros \<longrightarrow>
         fst (get_solicitudes_by_status str_strip str_title EP db u est esp ts urg loc) =
           Inr (filter (\<lambda>d. map_of d ''ownerId'' = Some (PStr (user_id u))
                            \<and> otros esp ts urg loc d) docs))"
  (is "?accepted \<and> ?title \<and> ?activa \<and> ?blank \<and> ?every")
proof -
  have 1: ?accepted
    using accepted_estado_is_title_cased [where str_strip = str_strip
            and str_title = str_title and EP = EP and db = db and u = u and esp = esp
            and ts = ts and urg = urg and loc = loc]
    by blast
  have 2: ?title
    using title_case_on_ascii [where str_strip = str_strip and str_title = str_title]
    by blast
  have 3: ?activa
  proof (intro impI ballI)
    fix s assume a: "on_ascii str_strip str_title \<and> ''Activa'' \<in> set EP"
      and s: "s \<in> {''activa'', ''ACTIVA''}"
    from s have "s = ''activa'' \<or> s = ''ACTIVA''" by blast
    from activa_on_ascii [OF conjunct1 [OF a] conjunct2 [OF a] this]
    show "get_solicitudes_by_status str_strip str_title EP db u (Some s) esp ts urg loc =
              (Inr (filter_solicitudes_by_owner_and_status db (user_id u) (Some ''Activa'')
                      esp ts urg loc),
               [Filter_by_owner_and_status (user_id u) (Some ''Activa'') esp ts urg loc])" .
  qed
  have 4: ?blank
    using blank_estado_is_no_filter [where str_strip = str_strip and str_title = str_title
            and EP = EP and db = db and u = u and esp = esp and ts = ts and urg = urg
            and loc = loc]
    by blast
  have 5: ?every
    using blank_estado_every_status [where str_strip = str_strip and str_title = str_title
            and EP = EP and db = db and u = u and esp = esp and ts = ts and urg = urg
            and loc = loc]
    by blast
  from 1 2 3 4 5 show ?thesis by (intro conjI)
qed

theorem estado_title_case_and_blank_witness:
  "get_solicitudes_by_status ascii_strip ascii_title [''Activa'', ''Cancelada''] db2 clinica
       (Some ''ACTIVA'') None None None None =
     (Inr [doc1], [Filter_by_owner_and_status ''u1'' (Some ''Activa'') None None None None])
   \<and> get_solicitudes_by_status ascii_strip ascii_title [''Activa'', ''Cancelada''] db2 clinica
       (Some ''  '') None None None None =
     (Inr [doc1, doc2], [Filter_by_owner_and_status ''u1'' None None None None None])"
proof -
  have a: "on_ascii ascii_strip ascii_title \<and> ''Activa'' \<in> set [''Activa'', ''Cancelada'']"
    by (simp add: on_ascii_def)
  have m: "''ACTIVA'' \<in> {''activa'', ''ACTIVA''}"
    by simp
  have b: "Some ''  '' = None \<or> Some ''  '' = Some []
           \<or> (\<exists>s. Some ''  '' = Some s \<and> ascii_strip s = [])"
    by (simp add: ascii_strip_def ascii_space_def)
  have d: "filter_solicitudes_by_owner_and_status db2 ''u1'' (Some ''Activa'')
             None None None None = [doc1]"
          "filter_solicitudes_by_owner_and_status db2 ''u1'' None None None None None =
             [doc1, doc2]"
    by (simp_all add: db2_def db1_def filtrar_por_igualdad_def sin_otros_def doc1_def doc2_def
          doc3_def)
  have u: "user_id clinica = ''u1''"
    by (simp add: clinica_def)
  note c = estado_title_case_and_blank [where str_strip = ascii_strip
             and str_title = ascii_title and EP = "[''Activa'', ''Cancelada'']" and db = db2
             and u = clinica and esp = None and ts = None and urg = None and loc = None]
  note activa = c [THEN conjunct2, THEN conjunct2, THEN conjunct1, THEN mp, OF a,
                   THEN bspec, OF m]
  note blank = c [THEN conjunct2, THEN conjunct2, THEN conjunct2, THEN conjunct1,
                  THEN spec, THEN mp, OF b]
  from activa blank show ?thesis
    by (simp add: u d)
qed

section \<open>Ownership of store calls\<close>

lemma depends_user_clinic_calls:
  assumes "\<And>u. \<forall>c \<in> set (snd (handler u)). owner_arg c = JStr (user_id u)"
    and "c \<in> set (snd (depends_user_clinic cg cred ut handler))"
  shows "profile_id cg cred = Some (owner_arg c)"
proof (cases "get_current_user cg cred ut")
  case (Inl e)
  with assms(2) show ?thesis by (simp add: depends_user_clinic_def)
next
  case (Inr u)
  from get_current_user_Inr [OF Inr] have p: "profile_id cg cred = Some (JStr (user_id u))"
    by (auto simp: profile_id_def)
  from assms(2) Inr have "c \<in> set (snd (handler u))"
    by (auto simp: depends_user_clinic_def get_current_user_clinic_def split: sum.splits)
  with assms(1) p show ?thesis by auto
qed

lemma depends_user_id_clinic_calls:
  assumes "\<And>i. \<forall>c \<in> set (snd (handler i)). owner_arg c = i"
    and "c \<in> set (snd (depends_user_id_clinic cg cred ut handler))"
  shows "profile_id cg cred = Some (owner_arg c)"
proof (cases "get_current_user_id cg cred ut")
  case (Inl e)
  with assms(2) show ?thesis by (simp add: depends_user_id_clinic_def)
next
  case (Inr i)
  from get_current_user_id_Inr [OF Inr] have p: "profile_id cg cred = Some i"
    by (auto simp: profile_id_def)
  from assms(2) Inr have "c \<in> set (snd (handler i))"
    by (simp add: depends_user_id_clinic_def get_current_user_id_clinic_def)
  with assms(1) p show ?thesis by auto
qed

lemma get_all_solicitudes_owner:
  "\<forall>c \<in> set (snd (get_all_solicitudes db u)). owner_arg c = JStr (user_id u)"
  by (simp add: get_all_solicitudes_def)

lemma get_solicitudes_by_status_owner:
  "\<forall>c \<in> set (snd (get_solicitudes_by_status str_strip str_title EP db u est esp ts urg loc)).
      owner_arg c = JStr (user_id u)"
  by (auto simp: get_solicitudes_by_status_def split: prod.splits if_splits)

lemma get_solicitud_by_id_owner:
  "\<forall>c \<in> set (snd (get_solicitud_by_id db sid u)). owner_arg c = JStr (user_id u)"
  by (auto simp: get_solicitud_by_id_def Let_def split: option.splits)

lemma create_solicitud_owner:
  "\<forall>c \<in> set (snd (create_solicitud validate up th now db i form foto)). owner_arg c = i"
  by (auto simp: create_solicitud_def Let_def split: sum.splits option.splits)

text \<open>C6: every store call issued by the three read routes and by the create route has,
  as its owner argument, the id that the authentication service reports for the
  request's token.\<close>

theorem store_calls_use_authenticated_id:
  "(\<forall>c \<in> set (snd (route_get_all_solicitudes cg db cred ut)).
       profile_id cg cred = Some (owner_arg c))
   \<and> (\<forall>c \<in> set (snd (route_get_solicitudes_by_status str_strip str_title cg EP db cred ut
                         est esp ts urg loc)).
         profile_id cg cred = Some (owner_arg c))
   \<and> (\<forall>c \<in> set (snd (route_get_solicitud_by_id cg db cred ut sid)).
         profile_id cg cred = Some (owner_arg c))
   \<and> (\<forall>c \<in> set (snd (route_create_solicitud cg validate up th now db cred ut form foto)).
         profile_id cg cred = Some (owner_arg c))"
  unfolding route_get_all_solicitudes_def route_get_solicitudes_by_status_def
    route_get_solicitud_by_id_def route_create_solicitud_def
  by (intro conjI ballI;
      erule depends_user_clinic_calls [rotated] depends_user_id_clinic_calls [rotated];
      rule get_all_solicitudes_owner get_solicitudes_by_status_owner
           get_solicitud_by_id_owner create_solicitud_owner)

theorem store_calls_use_authenticated_id_witness:
  "snd (route_get_all_solicitudes auth_ok db1 ''tok'' None) = [Get_by_owner ''u1'']
   \<and> snd (route_create_solicitud auth_ok acepta subida_ok ''abc'' ''2025'' db1 ''tok''
            (Some ''clinic'') form1 None) =
       [Create_with_owner (nueva_solicitud ''abc'' ''2025'' None form1) (JStr ''u1'')]
   \<and> profile_id auth_ok ''tok'' = Some (JStr ''u1'')"
proof -
  have a: "snd (route_get_all_solicitudes auth_ok db1 ''tok'' None) = [Get_by_owner ''u1'']"
    by (simp add: route_get_all_solicitudes_def depends_user_clinic_def get_current_user_def
          get_user_profile_from_token_def profile_try_body_def auth_ok_def perfil_def
          subscript_def AuthenticatedUser_init_def str_field_def dict_get_def UserType_of_def
          get_current_user_clinic_def verify_user_type_def get_all_solicitudes_def)
  have b: "snd (route_create_solicitud auth_ok acepta subida_ok ''abc'' ''2025'' db1 ''tok''
                 (Some ''clinic'') form1 None) =
             [Create_with_owner (nueva_solicitud ''abc'' ''2025'' None form1) (JStr ''u1'')]"
    by (simp add: route_create_solicitud_def depends_user_id_clinic_def
          get_current_user_id_def get_user_profile_from_token_def profile_try_body_def
          auth_ok_def perfil_def subscript_def get_current_user_id_clinic_def
          create_solicitud_def acepta_def Let_def)
  from store_calls_use_authenticated_id [of auth_ok db1 "''tok''" None] a
  have "profile_id auth_ok ''tok'' = Some (owner_arg (Get_by_owner ''u1''))"
    by simp
  with a b show ?thesis by simp
qed

end
